theory Spec2Isabelle
  imports Main "HOL-Library.Char_ord" "HOL-Library.List_Lexorder"
begin

section \<open>Python values shared by the tools\<close>

text \<open>
  Exceptions are values. The payload of the first three is the message the scripts build;
  \<open>ValueError\<close> is also what \<open>float(s)\<close> raises on a string it cannot read.
\<close>

datatype py_error =
    FileNotFoundError string
  | NotADirectoryError string
  | ValueError string
  | IndexError
  | KeyError string
  | OSError string

definition and_then :: "py_error + 'a \<Rightarrow> ('a \<Rightarrow> py_error + 'b) \<Rightarrow> py_error + 'b" where
  "and_then m f = (case m of Inl e \<Rightarrow> Inl e | Inr v \<Rightarrow> f v)"

text \<open>
  Python's \<open>float\<close> is not re-implemented: its operations are a parameter of every
  function that uses them. \<open>float_of_str\<close> is \<open>float(s)\<close> (\<open>None\<close> where it raises),
  \<open>float_of_int\<close> the float of an integer operand (\<open>3600\<close>, \<open>60\<close>, \<open>100\<close>) and of the
  literals \<open>0.0\<close> and \<open>1.0\<close>, \<open>float_str\<close> the text an f-string produces for a float.
\<close>

record 'f float_ops =
  float_of_str :: "string \<Rightarrow> 'f option"
  float_of_int :: "int \<Rightarrow> 'f"
  fadd :: "'f \<Rightarrow> 'f \<Rightarrow> 'f"
  fmul :: "'f \<Rightarrow> 'f \<Rightarrow> 'f"
  fdiv :: "'f \<Rightarrow> 'f \<Rightarrow> 'f"
  fle :: "'f \<Rightarrow> 'f \<Rightarrow> bool"
  flt :: "'f \<Rightarrow> 'f \<Rightarrow> bool"
  float_str :: "'f \<Rightarrow> string"

definition py_float :: "'f float_ops \<Rightarrow> string \<Rightarrow> py_error + 'f" where
  "py_float F s =
     (case float_of_str F s of
        None \<Rightarrow> Inl (ValueError ''could not convert string to float'')
      | Some v \<Rightarrow> Inr v)"

text \<open>\<open>if s:\<close> on an \<open>Optional[str]\<close>: \<open>None\<close> and the empty string are false.\<close>

definition truthy :: "string option \<Rightarrow> bool" where
  "truthy s = (case s of None \<Rightarrow> False | Some v \<Rightarrow> v \<noteq> [])"

text \<open>\<open>s.split(sep)\<close> for a one-character separator: never an empty list.\<close>

fun str_split :: "char \<Rightarrow> string \<Rightarrow> string list" where
  "str_split sep [] = [[]]"
| "str_split sep (c # cs) =
     (if c = sep then [] # str_split sep cs
      else (case str_split sep cs of
              [] \<Rightarrow> [[c]]
            | p # ps \<Rightarrow> (c # p) # ps))"

fun str_join :: "string \<Rightarrow> string list \<Rightarrow> string" where
  "str_join sep [] = []"
| "str_join sep [x] = x"
| "str_join sep (x # y # ys) = x @ sep @ str_join sep (y # ys)"

definition endswith :: "string \<Rightarrow> string \<Rightarrow> bool" where
  "endswith s suf = (length suf \<le> length s \<and> drop (length s - length suf) s = suf)"

definition getitem :: "'a list \<Rightarrow> nat \<Rightarrow> py_error + 'a" where
  "getitem xs i = (if i < length xs then Inr (xs ! i) else Inl IndexError)"

text \<open>The text of an \<open>int\<close> in an f-string: decimal digits, a minus sign when negative.\<close>

definition digit_char :: "nat \<Rightarrow> char" where
  "digit_char d = ''0123456789'' ! d"

function str_of_nat :: "nat \<Rightarrow> string" where
  "str_of_nat n = (if n < 10 then [digit_char n] else str_of_nat (n div 10) @ [digit_char (n mod 10)])"
  by pat_completeness auto
termination
  by (relation "measure (\<lambda>n. n)") auto

declare str_of_nat.simps [simp del]

definition str_of_int :: "int \<Rightarrow> string" where
  "str_of_int i = (if i < 0 then CHR ''-'' # str_of_nat (nat (- i)) else str_of_nat (nat i))"

section \<open>overlay\_image.py\<close>

subsection \<open>parse\_time\_to\_seconds\<close>

definition parse_time_to_seconds :: "'f float_ops \<Rightarrow> string \<Rightarrow> py_error + 'f" where
  "parse_time_to_seconds F time_str =
     (let parts = str_split CHR '':'' time_str in
      if length parts = 3 then
        and_then (and_then (getitem parts 0) (py_float F)) (\<lambda>h.
        and_then (and_then (getitem parts 1) (py_float F)) (\<lambda>m.
        and_then (and_then (getitem parts 2) (py_float F)) (\<lambda>s.
          Inr (fadd F (fadd F (fmul F h (float_of_int F 3600)) (fmul F m (float_of_int F 60))) s))))
      else if length parts = 2 then
        and_then (and_then (getitem parts 0) (py_float F)) (\<lambda>m.
        and_then (and_then (getitem parts 1) (py_float F)) (\<lambda>s.
          Inr (fadd F (fmul F m (float_of_int F 60)) s)))
      else
        and_then (getitem parts 0) (py_float F))"

subsection \<open>get\_position\_filter\<close>

definition position_map :: "int \<Rightarrow> int \<Rightarrow> (string \<rightharpoonup> string)" where
  "position_map offset_x offset_y = map_of
     [(''top-left'', str_of_int offset_x @ '':'' @ str_of_int offset_y),
      (''top-right'', ''main_w-overlay_w-'' @ str_of_int offset_x @ '':'' @ str_of_int offset_y),
      (''bottom-left'', str_of_int offset_x @ '':main_h-overlay_h-'' @ str_of_int offset_y),
      (''bottom-right'',
         ''main_w-overlay_w-'' @ str_of_int offset_x @ '':main_h-overlay_h-'' @ str_of_int offset_y),
      (''center'', ''(main_w-overlay_w)/2:(main_h-overlay_h)/2''),
      (''custom'', str_of_int offset_x @ '':'' @ str_of_int offset_y)]"

text \<open>\<open>position_map.get(position, position_map['top-right'])\<close>: the default is looked up first.\<close>

definition get_position_filter :: "string \<Rightarrow> int \<Rightarrow> int \<Rightarrow> py_error + string" where
  "get_position_filter position offset_x offset_y =
     (let pm = position_map offset_x offset_y in
      case pm ''top-right'' of
        None \<Rightarrow> Inl (KeyError ''top-right'')
      | Some dflt \<Rightarrow> Inr (case pm position of None \<Rightarrow> dflt | Some v \<Rightarrow> v))"

subsection \<open>The filter graph of overlay\_image\_on\_video\<close>

text \<open>
  The scale stage: a percentage becomes a factor on both dimensions (\<open>scale[:-1]\<close> drops the
  sign; its conversion can raise), anything else is passed on as written.
\<close>

definition scale_filter :: "'f float_ops \<Rightarrow> string \<Rightarrow> py_error + string" where
  "scale_filter F scale =
     (if endswith scale ''%'' then
        and_then (py_float F (butlast scale)) (\<lambda>v.
          let scale_factor = fdiv F v (float_of_int F 100) in
          Inr (''scale=iw*'' @ float_str F scale_factor @ '':ih*'' @ float_str F scale_factor))
      else Inr (''scale='' @ scale))"

text \<open>Both stages return the segments emitted so far and the current \<open>overlay_input\<close> tag.\<close>

definition scale_stage :: "'f float_ops \<Rightarrow> string option \<Rightarrow> py_error + (string list \<times> string)" where
  "scale_stage F scale =
     (case scale of
        None \<Rightarrow> Inr ([], ''[1:v]'')
      | Some s \<Rightarrow>
          if s \<noteq> [] then
            and_then (scale_filter F s) (\<lambda>sf. Inr ([''[1:v]'' @ sf @ ''[scaled]''], ''[scaled]''))
          else Inr ([], ''[1:v]''))"

definition opacity_stage ::
  "'f float_ops \<Rightarrow> string option \<Rightarrow> 'f \<Rightarrow> string list \<times> string \<Rightarrow> string list \<times> string" where
  "opacity_stage F scale opacity st =
     (case st of (filter_parts, overlay_input) \<Rightarrow>
        if flt F opacity (float_of_int F 1) then
          if truthy scale then
            (filter_parts @
               [''[scaled]format=rgba,colorchannelmixer=aa='' @ float_str F opacity @ ''[transparent]''],
             ''[transparent]'')
          else
            (filter_parts @
               [''[1:v]format=rgba,colorchannelmixer=aa='' @ float_str F opacity @ ''[transparent]''],
             ''[transparent]'')
        else (filter_parts, overlay_input))"

text \<open>
  The time constraints. The start time is parsed once for the \<open>gte\<close> clause and twice more
  for the \<open>between\<close> clause; the second \<open>if\<close> appends to the same list.
\<close>

definition gte_clause :: "'f float_ops \<Rightarrow> 'f \<Rightarrow> string" where
  "gte_clause F t0 = ''enable='' @ [CHR 0x27] @ ''gte(t,'' @ float_str F t0 @ '')'' @ [CHR 0x27]"

definition between_clause :: "'f float_ops \<Rightarrow> 'f \<Rightarrow> 'f \<Rightarrow> string" where
  "between_clause F t0 t1 =
     ''enable='' @ [CHR 0x27] @ ''between(t,'' @ float_str F t0 @ '','' @ float_str F t1 @ '')'' @ [CHR 0x27]"

definition overlay_options ::
  "'f float_ops \<Rightarrow> string option \<Rightarrow> string option \<Rightarrow> py_error + string list" where
  "overlay_options F start_time duration =
     and_then
       (case start_time of
          None \<Rightarrow> Inr []
        | Some st \<Rightarrow>
            if st \<noteq> [] then and_then (parse_time_to_seconds F st) (\<lambda>t0. Inr [gte_clause F t0])
            else Inr [])
       (\<lambda>opts.
          case (duration, start_time) of
            (Some d, Some st) \<Rightarrow>
              if d \<noteq> [] \<and> st \<noteq> [] then
                and_then (parse_time_to_seconds F st) (\<lambda>a.
                and_then (parse_time_to_seconds F d) (\<lambda>b.
                  let end_time = fadd F a b in
                  and_then (parse_time_to_seconds F st) (\<lambda>t0.
                    Inr (opts @ [between_clause F t0 end_time]))))
              else Inr opts
          | _ \<Rightarrow> Inr opts)"

definition overlay_filter :: "string \<Rightarrow> string \<Rightarrow> string list \<Rightarrow> string" where
  "overlay_filter overlay_input position_filter opts =
     (let base = ''[0:v]'' @ overlay_input @ ''overlay='' @ position_filter in
      if opts \<noteq> [] then base @ '':'' @ str_join '':'' opts else base)"

text \<open>\<open>filter_parts\<close> as it stands before the join, in the order the code appends.\<close>

definition filter_parts ::
  "'f float_ops \<Rightarrow> string \<Rightarrow> string option \<Rightarrow> 'f \<Rightarrow> int \<Rightarrow> int \<Rightarrow> string option \<Rightarrow> string option
     \<Rightarrow> py_error + string list" where
  "filter_parts F position scale opacity offset_x offset_y start_time duration =
     and_then (scale_stage F scale) (\<lambda>st.
       case opacity_stage F scale opacity st of (parts, overlay_input) \<Rightarrow>
         and_then (get_position_filter position offset_x offset_y) (\<lambda>position_filter.
         and_then (overlay_options F start_time duration) (\<lambda>opts.
           Inr (parts @ [overlay_filter overlay_input position_filter opts]))))"

definition filter_complex ::
  "'f float_ops \<Rightarrow> string \<Rightarrow> string option \<Rightarrow> 'f \<Rightarrow> int \<Rightarrow> int \<Rightarrow> string option \<Rightarrow> string option
     \<Rightarrow> py_error + string" where
  "filter_complex F position scale opacity offset_x offset_y start_time duration =
     and_then (filter_parts F position scale opacity offset_x offset_y start_time duration)
       (\<lambda>parts. Inr (str_join '';'' parts))"

section \<open>An exact decimal interpretation of the float operations\<close>

text \<open>
  For evaluating the builders on concrete inputs: \<open>Decimal m e\<close> stands for \<open>m / 10^e\<close>.
  Strings of digits with an optional fraction are read exactly, sums and products are exact,
  a quotient is cut after twenty more decimal places (the only divisor in the code is 100,
  never zero), and the text is the positional form with at least one fractional digit. On the values evaluated below (whole seconds, \<open>0.5\<close>,
  \<open>0.7\<close>) this is what the double-precision operations and \<open>repr\<close> give.
\<close>

datatype decimal = Decimal int nat

definition is_digit :: "char \<Rightarrow> bool" where
  "is_digit c = (c \<in> set ''0123456789'')"

definition digit_val :: "char \<Rightarrow> nat" where
  "digit_val c = of_char c - 48"

definition nat_of_digits :: "string \<Rightarrow> nat" where
  "nat_of_digits ds = foldl (\<lambda>acc c. 10 * acc + digit_val c) 0 ds"

definition dec_of_str :: "string \<Rightarrow> decimal option" where
  "dec_of_str s =
     (case str_split CHR ''.'' s of
        [i] \<Rightarrow> if i \<noteq> [] \<and> list_all is_digit i then Some (Decimal (int (nat_of_digits i)) 0) else None
      | [i, f] \<Rightarrow>
          if (i \<noteq> [] \<or> f \<noteq> []) \<and> list_all is_digit i \<and> list_all is_digit f
          then Some (Decimal (int (nat_of_digits (i @ f))) (length f)) else None
      | _ \<Rightarrow> None)"

fun dec_add :: "decimal \<Rightarrow> decimal \<Rightarrow> decimal" where
  "dec_add (Decimal a e) (Decimal b f) =
     Decimal (a * 10 ^ (max e f - e) + b * 10 ^ (max e f - f)) (max e f)"

fun dec_mul :: "decimal \<Rightarrow> decimal \<Rightarrow> decimal" where
  "dec_mul (Decimal a e) (Decimal b f) = Decimal (a * b) (e + f)"

fun dec_div :: "decimal \<Rightarrow> decimal \<Rightarrow> decimal" where
  "dec_div (Decimal a e) (Decimal b f) = Decimal ((a * 10 ^ (f + 20)) div b) (e + 20)"

fun dec_le :: "decimal \<Rightarrow> decimal \<Rightarrow> bool" where
  "dec_le (Decimal a e) (Decimal b f) = (a * 10 ^ f \<le> b * 10 ^ e)"

fun dec_lt :: "decimal \<Rightarrow> decimal \<Rightarrow> bool" where
  "dec_lt (Decimal a e) (Decimal b f) = (a * 10 ^ f < b * 10 ^ e)"

fun dec_norm :: "int \<Rightarrow> nat \<Rightarrow> int \<times> nat" where
  "dec_norm m 0 = (m, 0)"
| "dec_norm m (Suc e) = (if m mod 10 = 0 then dec_norm (m div 10) e else (m, Suc e))"

fun dec_str :: "decimal \<Rightarrow> string" where
  "dec_str (Decimal m e) =
     (case dec_norm m e of (m', e') \<Rightarrow>
        let ds = str_of_nat (nat \<bar>m'\<bar>);
            padded = replicate (Suc e' - length ds) CHR ''0'' @ ds;
            ip = take (length padded - e') padded;
            fp = drop (length padded - e') padded
        in (if m' < 0 then ''-'' else []) @ ip @ ''.'' @ (if fp = [] then ''0'' else fp))"

definition decimal_ops :: "decimal float_ops" where
  "decimal_ops =
     \<lparr> float_of_str = dec_of_str,
       float_of_int = (\<lambda>i. Decimal i 0),
       fadd = dec_add, fmul = dec_mul, fdiv = dec_div,
       fle = dec_le, flt = dec_lt,
       float_str = dec_str \<rparr>"

section \<open>The operating system as the scripts see it\<close>

text \<open>
  \<open>pathlib\<close>, \<open>os.path\<close>, \<open>os.makedirs\<close> and \<open>subprocess.run\<close> are not re-implemented:
  what they answer is a parameter, one snapshot of the machine for a whole run. \<open>'p\<close> is
  the type of \<open>Path\<close> objects, \<open>'t\<close> the type of the timestamps of \<open>stat()\<close>.
  \<open>os_makedirs\<close> gives the exception it raises, if any; \<open>subprocess_run\<close> what became
  of the child process.
\<close>

datatype run_result =
    Completed int string
  | RaisesFileNotFound string
  | RaisesOther string

record ('p, 't) os_env =
  path_of :: "string \<Rightarrow> 'p"
  path_str :: "'p \<Rightarrow> string"
  path_name :: "'p \<Rightarrow> string"
  path_exists :: "'p \<Rightarrow> bool"
  is_dir :: "'p \<Rightarrow> bool"
  is_file :: "'p \<Rightarrow> bool"
  iterdir :: "'p \<Rightarrow> 'p list"
  st_ctime :: "'p \<Rightarrow> 't"
  st_mtime :: "'p \<Rightarrow> 't"
  resolve :: "'p \<Rightarrow> 'p"
  os_path_join :: "string \<Rightarrow> string \<Rightarrow> string"
  os_path_abspath :: "string \<Rightarrow> string"
  os_path_dirname :: "string \<Rightarrow> string"
  os_makedirs :: "string \<Rightarrow> py_error option"
  subprocess_run :: "string list \<Rightarrow> run_result"

text \<open>
  \<open>Path.suffix\<close> and \<open>Path.stem\<close> are functions of the name: the suffix starts at the last
  dot, unless that dot is the first or the last character of the name.
\<close>

definition suffix_of_name :: "string \<Rightarrow> string" where
  "suffix_of_name nm =
     (if CHR ''.'' \<in> set nm then
        (let ext = rev (takeWhile (\<lambda>c. c \<noteq> CHR ''.'') (rev nm));
             i = length nm - length ext - 1
         in if 0 < i \<and> i < length nm - 1 then drop i nm else [])
      else [])"

definition stem_of_name :: "string \<Rightarrow> string" where
  "stem_of_name nm = take (length nm - length (suffix_of_name nm)) nm"

text \<open>\<open>str.lower\<close> on the ASCII letters; every other character is left as it is.\<close>

definition lower_char :: "char \<Rightarrow> char" where
  "lower_char c =
     (let n = (of_char c :: nat) in if 65 \<le> n \<and> n \<le> 90 then char_of (n + 32) else c)"

definition str_lower :: "string \<Rightarrow> string" where
  "str_lower s = map lower_char s"

text \<open>\<open>s.replace(old, new)\<close>: leftmost matches, not overlapping.\<close>

function str_replace :: "string \<Rightarrow> string \<Rightarrow> string \<Rightarrow> string" where
  "str_replace old new [] = (if old = [] then new else [])"
| "str_replace old new (c # cs) =
     (if old = [] then new @ c # str_replace old new cs
      else if take (length old) (c # cs) = old
        then new @ str_replace old new (drop (length old) (c # cs))
      else c # str_replace old new cs)"
  by pat_completeness auto
termination
  by (relation "measure (\<lambda>(old, new, s). length s)") auto

section \<open>concatenate\_videos.py\<close>

subsection \<open>find\_mp4\_files\<close>

definition is_mp4 :: "('p, 't) os_env \<Rightarrow> 'p \<Rightarrow> bool" where
  "is_mp4 E file_path =
     (is_file E file_path \<and> str_lower (suffix_of_name (path_name E file_path)) = ''.mp4'')"

text \<open>The loop over \<open>folder.iterdir()\<close>, appending to \<open>mp4_files\<close>.\<close>

fun collect_mp4 :: "('p, 't) os_env \<Rightarrow> 'p list \<Rightarrow> 'p list \<Rightarrow> 'p list" where
  "collect_mp4 E mp4_files [] = mp4_files"
| "collect_mp4 E mp4_files (file_path # rest) =
     (if is_mp4 E file_path then collect_mp4 E (mp4_files @ [file_path]) rest
      else collect_mp4 E mp4_files rest)"

text \<open>\<open>list.sort(key=...)\<close> is stable, as \<open>sort_key\<close> is.\<close>

definition find_mp4_files ::
  "('p, 't::linorder) os_env \<Rightarrow> string \<Rightarrow> string \<Rightarrow> py_error + 'p list" where
  "find_mp4_files E folder_path sort_method =
     (let folder = path_of E folder_path in
      if \<not> path_exists E folder then
        Inl (FileNotFoundError (''Folder does not exist: '' @ folder_path))
      else if \<not> is_dir E folder then
        Inl (NotADirectoryError (''Path is not a directory: '' @ folder_path))
      else
        (let mp4_files = collect_mp4 E [] (iterdir E folder) in
         if mp4_files = [] then
           Inl (ValueError (''No MP4 files found in folder: '' @ folder_path))
         else if sort_method = ''alphabetical'' then
           Inr (sort_key (\<lambda>x. str_lower (path_name E x)) mp4_files)
         else if sort_method = ''date_created'' then
           Inr (sort_key (st_ctime E) mp4_files)
         else if sort_method = ''date_modified'' then
           Inr (sort_key (st_mtime E) mp4_files)
         else Inl (ValueError (''Invalid sort method: '' @ sort_method))))"

subsection \<open>create\_concat\_file\<close>

definition concat_line :: "('p, 't) os_env \<Rightarrow> 'p \<Rightarrow> string" where
  "concat_line E mp4_file =
     (let abs_path = str_replace [CHR 0x5C] ''/'' (path_str E (resolve E mp4_file));
          escaped_path = str_replace [CHR 0x27] [CHR 0x5C, CHR 0x27] abs_path
      in ''file '' @ [CHR 0x27] @ escaped_path @ [CHR 0x27] @ [CHR 0x0A])"

text \<open>The result is the path of the list file and the text written to it.\<close>

definition create_concat_file :: "('p, 't) os_env \<Rightarrow> 'p list \<Rightarrow> string \<Rightarrow> string \<times> string" where
  "create_concat_file E mp4_files temp_dir =
     (let concat_file_path = os_path_join E temp_dir ''concat_list.txt'' in
      (concat_file_path, foldl (\<lambda>written mp4_file. written @ concat_line E mp4_file) [] mp4_files))"

section \<open>overlay\_image.py: the run of the tool\<close>

text \<open>
  What a run does to the outside world is a list of events, in order: a line printed, a call
  of \<open>subprocess.run\<close> with its argument vector, a call of \<open>os.makedirs\<close>.
\<close>

datatype event = Print string | Spawn "string list" | MakeDirs string

definition cross_mark :: string where
  "cross_mark = [CHR 0xE2, CHR 0x9D, CHR 0x8C]"

definition check_mark :: string where
  "check_mark = [CHR 0xE2, CHR 0x9C, CHR 0x85]"

definition err_str :: "py_error \<Rightarrow> string" where
  "err_str e =
     (case e of
        FileNotFoundError m \<Rightarrow> m
      | NotADirectoryError m \<Rightarrow> m
      | ValueError m \<Rightarrow> m
      | IndexError \<Rightarrow> ''list index out of range''
      | KeyError k \<Rightarrow> [CHR 0x27] @ k @ [CHR 0x27]
      | OSError m \<Rightarrow> m)"

text \<open>
  \<open>check=True\<close> turns a non-zero exit status into \<open>CalledProcessError\<close>, which is caught
  like \<open>FileNotFoundError\<close>; any other exception leaves the function.
\<close>

definition check_ffmpeg :: "('p, 't) os_env \<Rightarrow> event list \<times> (py_error + bool)" where
  "check_ffmpeg E =
     ([Spawn [''ffmpeg'', ''-version'']],
      case subprocess_run E [''ffmpeg'', ''-version''] of
        Completed rc err \<Rightarrow> Inr (rc = 0)
      | RaisesFileNotFound m \<Rightarrow> Inr False
      | RaisesOther m \<Rightarrow> Inl (OSError m))"

definition video_extensions :: "string list" where
  "video_extensions = [''.mp4'', ''.avi'', ''.mov'', ''.mkv'', ''.webm'', ''.flv'', ''.wmv'', ''.m4v'']"

definition image_extensions :: "string list" where
  "image_extensions = [''.png'', ''.jpg'', ''.jpeg'', ''.gif'', ''.bmp'', ''.tiff'', ''.webp'']"

definition validate_files :: "('p, 't) os_env \<Rightarrow> string \<Rightarrow> string \<Rightarrow> py_error + ('p \<times> 'p)" where
  "validate_files E video_path image_path =
     (let video_file = path_of E video_path; image_file = path_of E image_path in
      if \<not> path_exists E video_file then
        Inl (FileNotFoundError (''Video file does not exist: '' @ video_path))
      else if \<not> path_exists E image_file then
        Inl (FileNotFoundError (''Image file does not exist: '' @ image_path))
      else if str_lower (suffix_of_name (path_name E video_file)) \<notin> set video_extensions then
        Inl (ValueError (''Unsupported video format: '' @ suffix_of_name (path_name E video_file)))
      else if str_lower (suffix_of_name (path_name E image_file)) \<notin> set image_extensions then
        Inl (ValueError (''Unsupported image format: '' @ suffix_of_name (path_name E image_file)))
      else Inr (video_file, image_file))"

text \<open>
  The filter graph is built outside the function's own \<open>try\<close>, so an exception of the
  builder leaves the function; one of \<open>subprocess.run\<close> is caught and reported.
\<close>

definition overlay_image_on_video ::
  "'f float_ops \<Rightarrow> ('p, 't) os_env \<Rightarrow> 'p \<Rightarrow> 'p \<Rightarrow> string \<Rightarrow> string \<Rightarrow> string option \<Rightarrow> 'f
     \<Rightarrow> int \<Rightarrow> int \<Rightarrow> string option \<Rightarrow> string option \<Rightarrow> event list \<times> (py_error + bool)" where
  "overlay_image_on_video F E video_file image_file output_path position scale opacity
       offset_x offset_y start_time duration =
     (let banner =
            [Print (''Overlaying image: '' @ path_name E image_file),
             Print (''On video: '' @ path_name E video_file),
             Print (''Position: '' @ position),
             Print (''Output: '' @ output_path)]
      in case filter_complex F position scale opacity offset_x offset_y start_time duration of
           Inl e \<Rightarrow> (banner, Inl e)
         | Inr fc \<Rightarrow>
             (let cmd = [''ffmpeg'', ''-i'', path_str E video_file, ''-i'', path_str E image_file,
                         ''-filter_complex'', fc, ''-c:a'', ''copy'', ''-y'', output_path];
                  started = banner @
                    [Print ([CHR 0x0A] @ ''Running ffmpeg overlay...''),
                     Print (''Command: '' @ str_join '' '' cmd),
                     Spawn cmd]
              in case subprocess_run E cmd of
                   Completed rc err \<Rightarrow>
                     if rc = 0 then
                       (started @
                          [Print ([CHR 0x0A] @ check_mark
                                    @ '' Successfully created video with overlay: '' @ output_path)],
                        Inr True)
                     else
                       (started @
                          [Print ([CHR 0x0A] @ cross_mark @ '' Error during overlay:''),
                           Print (''Error output: '' @ err)],
                        Inr False)
                 | RaisesFileNotFound m \<Rightarrow>
                     (started @ [Print ([CHR 0x0A] @ cross_mark @ '' Error during overlay: '' @ m)],
                      Inr False)
                 | RaisesOther m \<Rightarrow>
                     (started @ [Print ([CHR 0x0A] @ cross_mark @ '' Error during overlay: '' @ m)],
                      Inr False)))"

text \<open>The parsed command line (\<open>argparse\<close> has run) and the rest of \<open>main\<close>.\<close>

record 'f overlay_args =
  arg_video :: string
  arg_image :: string
  arg_output :: "string option"
  arg_position :: string
  arg_scale :: "string option"
  arg_opacity :: 'f
  arg_offset_x :: int
  arg_offset_y :: int
  arg_start_time :: "string option"
  arg_duration :: "string option"

text \<open>The body of the \<open>try\<close> in \<open>main\<close>: the events, and the exit status or the exception.\<close>

definition main_try ::
  "'f float_ops \<Rightarrow> ('p, 't) os_env \<Rightarrow> 'f overlay_args \<Rightarrow> event list \<times> (py_error + int)" where
  "main_try F E args =
     (case validate_files E (arg_video args) (arg_image args) of
        Inl e \<Rightarrow> ([], Inl e)
      | Inr (video_file, image_file) \<Rightarrow>
          (let output =
                 (case arg_output args of
                    None \<Rightarrow> ''output/'' @ stem_of_name (path_name E video_file) @ ''_overlay''
                              @ suffix_of_name (path_name E video_file)
                  | Some out \<Rightarrow> out);
               output_path = os_path_abspath E output;
               output_dir = os_path_dirname E output_path
           in case os_makedirs E output_dir of
                Some e \<Rightarrow> ([MakeDirs output_dir], Inl e)
              | None \<Rightarrow>
                  (case overlay_image_on_video F E video_file image_file output_path
                          (arg_position args) (arg_scale args) (arg_opacity args)
                          (arg_offset_x args) (arg_offset_y args)
                          (arg_start_time args) (arg_duration args) of
                     (evs, Inl e) \<Rightarrow> (MakeDirs output_dir # evs, Inl e)
                   | (evs, Inr success) \<Rightarrow>
                       (MakeDirs output_dir # evs, Inr (if success then 0 else 1)))))"

text \<open>
  \<open>main\<close> after \<open>parse_args\<close>: the events of the run and the exit status. An exception
  that leaves \<open>check_ffmpeg\<close> is not caught: the interpreter ends with status 1.
\<close>

definition main :: "'f float_ops \<Rightarrow> ('p, 't) os_env \<Rightarrow> 'f overlay_args \<Rightarrow> event list \<times> int" where
  "main F E args =
     (if \<not> (fle F (float_of_int F 0) (arg_opacity args) \<and> fle F (arg_opacity args) (float_of_int F 1))
      then ([Print (cross_mark @ '' Error: Opacity must be between 0.0 and 1.0'')], 1)
      else
        (case check_ffmpeg E of
           (probe, Inl e) \<Rightarrow> (probe, 1)
         | (probe, Inr available) \<Rightarrow>
             if \<not> available then
               (probe @
                  [Print (cross_mark @ '' Error: ffmpeg is not installed or not available in system PATH''),
                   Print (''Please install ffmpeg and ensure it'' @ [CHR 0x27]
                            @ ''s accessible from command line'')],
                1)
             else
               (case main_try F E args of
                  (evs, Inl e) \<Rightarrow> (probe @ evs @ [Print (cross_mark @ '' Error: '' @ err_str e)], 1)
                | (evs, Inr status) \<Rightarrow> (probe @ evs, status))))"

definition spawns :: "event list \<Rightarrow> string list list" where
  "spawns evs = concat (map (\<lambda>ev. case ev of Spawn cmd \<Rightarrow> [cmd] | _ \<Rightarrow> []) evs)"

section \<open>A small machine for evaluating the tools\<close>

text \<open>
  Paths are their strings. The working directory holds a folder \<open>videos\<close> with two clips
  and a text file, a folder \<open>docs\<close> with a text file only, and a plain file
  \<open>clip.mp4\<close>; every child process ends with status 0.
\<close>

definition demo_env :: "(string, nat) os_env" where
  "demo_env =
     \<lparr> path_of = (\<lambda>s. s),
       path_str = (\<lambda>p. p),
       path_name = (\<lambda>p. last (str_split CHR ''/'' p)),
       path_exists = (\<lambda>p. p \<in> set [''videos'', ''videos/b.mp4'', ''videos/A.MP4'', ''videos/notes.txt'',
                                      ''docs'', ''docs/readme.txt'', ''clip.mp4'', ''logo.png'']),
       is_dir = (\<lambda>p. p \<in> set [''videos'', ''docs'']),
       is_file = (\<lambda>p. p \<in> set [''videos/b.mp4'', ''videos/A.MP4'', ''videos/notes.txt'',
                                  ''docs/readme.txt'', ''clip.mp4'', ''logo.png'']),
       iterdir = (\<lambda>p. if p = ''videos'' then [''videos/b.mp4'', ''videos/A.MP4'', ''videos/notes.txt'']
                       else if p = ''docs'' then [''docs/readme.txt''] else []),
       st_ctime = (\<lambda>p. length p),
       st_mtime = (\<lambda>p. length p),
       resolve = (\<lambda>p. ''/home/user/'' @ p),
       os_path_join = (\<lambda>a b. a @ ''/'' @ b),
       os_path_abspath = (\<lambda>p. ''/home/user/'' @ p),
       os_path_dirname = (\<lambda>p. str_join ''/'' (butlast (str_split CHR ''/'' p))),
       os_makedirs = (\<lambda>d. None),
       subprocess_run = (\<lambda>cmd. Completed 0 []) \<rparr>"

definition demo_args :: "decimal overlay_args" where
  "demo_args =
     \<lparr> arg_video = ''clip.mp4'', arg_image = ''logo.png'', arg_output = None,
       arg_position = ''top-right'', arg_scale = None, arg_opacity = Decimal 15 1,
       arg_offset_x = 10, arg_offset_y = 10, arg_start_time = None, arg_duration = None \<rparr>"

section \<open>The time parser as the specification words it\<close>

text \<open>
  The reference the parser is compared with: three components are hours, minutes and
  seconds, two are minutes and seconds, one is seconds; any other number of components, and
  any component that is not a number, is a format error (the \<open>ValueError\<close> of \<open>float\<close>).
\<close>

definition parse_time_spec :: "'f float_ops \<Rightarrow> string \<Rightarrow> py_error + 'f" where
  "parse_time_spec F time_str =
     (case str_split CHR '':'' time_str of
        [h, m, s] \<Rightarrow>
          (case (float_of_str F h, float_of_str F m, float_of_str F s) of
             (Some hv, Some mv, Some sv) \<Rightarrow>
               Inr (fadd F (fadd F (fmul F hv (float_of_int F 3600)) (fmul F mv (float_of_int F 60))) sv)
           | _ \<Rightarrow> Inl (ValueError ''could not convert string to float''))
      | [m, s] \<Rightarrow>
          (case (float_of_str F m, float_of_str F s) of
             (Some mv, Some sv) \<Rightarrow> Inr (fadd F (fmul F mv (float_of_int F 60)) sv)
           | _ \<Rightarrow> Inl (ValueError ''could not convert string to float''))
      | [s] \<Rightarrow>
          (case float_of_str F s of
             Some sv \<Rightarrow> Inr sv
           | None \<Rightarrow> Inl (ValueError ''could not convert string to float''))
      | _ \<Rightarrow> Inl (ValueError ''could not convert string to float''))"

section \<open>Basic facts\<close>

lemma and_then_Inr [simp]: "and_then (Inr v) f = f v"
  by (simp add: and_then_def)

lemma and_then_Inl [simp]: "and_then (Inl e) f = Inl e"
  by (simp add: and_then_def)

lemma str_split_not_Nil [simp]: "str_split sep s \<noteq> []"
  by (induction s) (auto split: list.splits)

section \<open>The time parser\<close>

lemma parse_time_three:
  "str_split CHR '':'' s = [a, b, c] \<Longrightarrow> parse_time_to_seconds F s = parse_time_spec F s"
  by (simp add: parse_time_to_seconds_def parse_time_spec_def getitem_def py_float_def
           split: option.splits)

lemma parse_time_two:
  "str_split CHR '':'' s = [a, b] \<Longrightarrow> parse_time_to_seconds F s = parse_time_spec F s"
  by (simp add: parse_time_to_seconds_def parse_time_spec_def getitem_def py_float_def
           split: option.splits)

lemma parse_time_one:
  "str_split CHR '':'' s = [a] \<Longrightarrow> parse_time_to_seconds F s = parse_time_spec F s"
  by (simp add: parse_time_to_seconds_def parse_time_spec_def getitem_def py_float_def
           split: option.splits)

lemma parse_time_many:
  "str_split CHR '':'' s = a # b # c # d # rest \<Longrightarrow> parse_time_to_seconds F s = py_float F a"
  by (simp add: parse_time_to_seconds_def getitem_def)

lemma parse_time_upto_three:
  assumes "length (str_split CHR '':'' s) \<le> 3"
  shows "parse_time_to_seconds F s = parse_time_spec F s"
proof (cases "str_split CHR '':'' s")
  case Nil
  then show ?thesis by simp
next
  case (Cons a r1)
  note c1 = this
  show ?thesis
  proof (cases r1)
    case Nil
    with c1 show ?thesis by (simp add: parse_time_one)
  next
    case (Cons b r2)
    note c2 = this
    show ?thesis
    proof (cases r2)
      case Nil
      with c1 c2 show ?thesis by (simp add: parse_time_two)
    next
      case (Cons c r3)
      with assms c1 c2 have "r3 = []" by simp
      with c1 c2 Cons show ?thesis by (simp add: parse_time_three)
    qed
  qed
qed

lemma parse_time_examples:
  "parse_time_to_seconds decimal_ops ''01:02:03'' = Inr (Decimal 3723 0) \<and>
   parse_time_to_seconds decimal_ops ''02:03'' = Inr (Decimal 123 0) \<and>
   parse_time_to_seconds decimal_ops ''45'' = Inr (Decimal 45 0) \<and>
   parse_time_to_seconds decimal_ops ''1:x:3'' = Inl (ValueError ''could not convert string to float'') \<and>
   float_str decimal_ops (Decimal 3723 0) = ''3723.0''"
  by code_simp

text \<open>
  C2: the parser is to be the reference: one, two or three numeric components give seconds,
  minutes and seconds, or hours, minutes and seconds, and every other string is a format
  error. Up to three components it is (\<open>parse_time_upto_three\<close>). At \<open>1:2:3:4\<close> it is
  not: the string has four components, the reference raises the format error, and the code
  takes the branch it comments as \<open>SS\<close> and returns 1.0, the first component alone.
\<close>

theorem parse_time_four_components_diverges:
  "length (str_split CHR '':'' ''1:2:3:4'') = 4 \<and>
   parse_time_spec decimal_ops ''1:2:3:4'' = Inl (ValueError ''could not convert string to float'') \<and>
   parse_time_to_seconds decimal_ops ''1:2:3:4'' = Inr (Decimal 1 0) \<and>
   float_str decimal_ops (Decimal 1 0) = ''1.0''"
  by code_simp

section \<open>Position resolution\<close>

lemma get_position_filter_eq:
  "get_position_filter position offset_x offset_y =
     Inr (case position_map offset_x offset_y position of
            None \<Rightarrow> ''main_w-overlay_w-'' @ str_of_int offset_x @ '':'' @ str_of_int offset_y
          | Some v \<Rightarrow> v)"
  by (simp add: get_position_filter_def position_map_def)

text \<open>
  C5: every preset gives its pair of coordinate expressions, the offsets written in decimal;
  \<open>custom\<close> is \<open>top-left\<close>; a string that is no preset gives the \<open>top-right\<close> expression.
\<close>

theorem get_position_filter_presets:
  "get_position_filter ''top-left'' ox oy = Inr (str_of_int ox @ '':'' @ str_of_int oy) \<and>
   get_position_filter ''custom'' ox oy = Inr (str_of_int ox @ '':'' @ str_of_int oy) \<and>
   get_position_filter ''top-right'' ox oy =
     Inr (''main_w-overlay_w-'' @ str_of_int ox @ '':'' @ str_of_int oy) \<and>
   get_position_filter ''bottom-left'' ox oy =
     Inr (str_of_int ox @ '':main_h-overlay_h-'' @ str_of_int oy) \<and>
   get_position_filter ''bottom-right'' ox oy =
     Inr (''main_w-overlay_w-'' @ str_of_int ox @ '':main_h-overlay_h-'' @ str_of_int oy) \<and>
   get_position_filter ''center'' ox oy = Inr ''(main_w-overlay_w)/2:(main_h-overlay_h)/2'' \<and>
   (position \<notin> set [''top-left'', ''top-right'', ''bottom-left'', ''bottom-right'', ''center'', ''custom'']
      \<longrightarrow> get_position_filter position ox oy =
            Inr (''main_w-overlay_w-'' @ str_of_int ox @ '':'' @ str_of_int oy))"
  by (simp add: get_position_filter_eq position_map_def)

theorem get_position_filter_presets_witness:
  "get_position_filter ''bottom-right'' 10 10 = Inr ''main_w-overlay_w-10:main_h-overlay_h-10'' \<and>
   ''top'' \<notin> set [''top-left'', ''top-right'', ''bottom-left'', ''bottom-right'', ''center'', ''custom''] \<and>
   get_position_filter ''top'' 10 (- 3) = Inr ''main_w-overlay_w-10:-3''"
  using get_position_filter_presets [of 10 10 "''top''"] get_position_filter_presets [of 10 "- 3" "''top''"]
  by code_simp

section \<open>The filter graph\<close>

lemma scale_stage_tag:
  "scale_stage F scale = Inr (ps, inp) \<Longrightarrow> inp = (if truthy scale then ''[scaled]'' else ''[1:v]'')"
  by (auto simp: scale_stage_def truthy_def and_then_def split: option.splits if_splits sum.splits)

lemma filter_parts_eq:
  "scale_stage F scale = Inr sc \<Longrightarrow> get_position_filter position ox oy = Inr pos \<Longrightarrow>
   overlay_options F start_time duration = Inr opts \<Longrightarrow>
   filter_parts F position scale opacity ox oy start_time duration =
     Inr (fst (opacity_stage F scale opacity sc)
            @ [overlay_filter (snd (opacity_stage F scale opacity sc)) pos opts])"
  by (simp add: filter_parts_def split: prod.splits)

lemma overlay_options_both:
  "st \<noteq> [] \<Longrightarrow> d \<noteq> [] \<Longrightarrow> parse_time_to_seconds F st = Inr t0 \<Longrightarrow>
   parse_time_to_seconds F d = Inr t1 \<Longrightarrow>
   overlay_options F (Some st) (Some d) = Inr [gte_clause F t0, between_clause F t0 (fadd F t0 t1)]"
  by (simp add: overlay_options_def)

lemma overlay_options_no_start:
  "\<not> truthy start_time \<Longrightarrow> overlay_options F start_time duration = Inr []"
  by (auto simp: overlay_options_def truthy_def split: option.splits)

text \<open>
  C1, as the claim states it, fails: with start time \<open>00:00:10\<close> and duration \<open>00:00:30\<close>
  the final overlay segment carries two enable clauses, the \<open>gte\<close> clause and after it the
  \<open>between\<close> clause.
\<close>

theorem overlay_two_enable_clauses_counterexample:
  "overlay_options decimal_ops (Some ''00:00:10'') (Some ''00:00:30'') =
     Inr [''enable='' @ [CHR 0x27] @ ''gte(t,10.0)'' @ [CHR 0x27],
          ''enable='' @ [CHR 0x27] @ ''between(t,10.0,40.0)'' @ [CHR 0x27]] \<and>
   filter_parts decimal_ops ''top-right'' None (Decimal 1 0) 10 10 (Some ''00:00:10'') (Some ''00:00:30'') =
     Inr [''[0:v][1:v]overlay=main_w-overlay_w-10:10:enable='' @ [CHR 0x27] @ ''gte(t,10.0)'' @ [CHR 0x27]
            @ '':enable='' @ [CHR 0x27] @ ''between(t,10.0,40.0)'' @ [CHR 0x27]]"
  by code_simp

text \<open>
  C1, amended: when a start time and a duration are both given (and both parse, and the scale
  stage succeeds), the graph is produced and its final overlay segment ends with two enable
  clauses joined by a colon: \<open>gte(t,start)\<close>, then \<open>between(t,start,start+duration)\<close>. The
  second clause is appended to the first, it does not replace it.
\<close>

theorem overlay_start_and_duration_clauses:
  assumes "st \<noteq> []" and "d \<noteq> []"
    and "parse_time_to_seconds F st = Inr t0" and "parse_time_to_seconds F d = Inr t1"
    and "scale_stage F scale = Inr sc" and "get_position_filter position ox oy = Inr pos"
  shows "filter_parts F position scale opacity ox oy (Some st) (Some d) =
     Inr (fst (opacity_stage F scale opacity sc) @
          [''[0:v]'' @ snd (opacity_stage F scale opacity sc) @ ''overlay='' @ pos
             @ '':'' @ gte_clause F t0 @ '':'' @ between_clause F t0 (fadd F t0 t1)])"
  using assms
  by (simp add: filter_parts_eq [OF assms(5) assms(6) overlay_options_both] overlay_filter_def)

theorem overlay_start_and_duration_clauses_witness:
  "filter_parts decimal_ops ''bottom-right'' (Some ''50%'') (Decimal 7 1) 10 10
       (Some ''00:00:10'') (Some ''00:00:30'') =
     Inr [''[1:v]scale=iw*0.5:ih*0.5[scaled]'',
          ''[scaled]format=rgba,colorchannelmixer=aa=0.7[transparent]'',
          ''[0:v][transparent]overlay=main_w-overlay_w-10:main_h-overlay_h-10:enable='' @ [CHR 0x27]
            @ ''gte(t,10.0)'' @ [CHR 0x27] @ '':enable='' @ [CHR 0x27] @ ''between(t,10.0,40.0)''
            @ [CHR 0x27]]"
proof -
  have 1: "''00:00:10'' \<noteq> []" "''00:00:30'' \<noteq> []" by simp_all
  have 2: "parse_time_to_seconds decimal_ops ''00:00:10'' = Inr (Decimal 10 0)" by code_simp
  have 3: "parse_time_to_seconds decimal_ops ''00:00:30'' = Inr (Decimal 30 0)" by code_simp
  have 4: "scale_stage decimal_ops (Some ''50%'') =
      Inr ([''[1:v]scale=iw*0.5:ih*0.5[scaled]''], ''[scaled]'')"
    by code_simp
  have 5: "get_position_filter ''bottom-right'' 10 10 = Inr ''main_w-overlay_w-10:main_h-overlay_h-10''"
    by code_simp
  have 6: "opacity_stage decimal_ops (Some ''50%'') (Decimal 7 1)
        ([''[1:v]scale=iw*0.5:ih*0.5[scaled]''], ''[scaled]'') =
      ([''[1:v]scale=iw*0.5:ih*0.5[scaled]'',
        ''[scaled]format=rgba,colorchannelmixer=aa=0.7[transparent]''], ''[transparent]'')"
    by code_simp
  have 7: "gte_clause decimal_ops (Decimal 10 0) = ''enable='' @ [CHR 0x27] @ ''gte(t,10.0)'' @ [CHR 0x27]"
    by code_simp
  have 8: "between_clause decimal_ops (Decimal 10 0) (fadd decimal_ops (Decimal 10 0) (Decimal 30 0)) =
      ''enable='' @ [CHR 0x27] @ ''between(t,10.0,40.0)'' @ [CHR 0x27]"
    by code_simp
  show ?thesis
    using overlay_start_and_duration_clauses
      [OF 1 2 3 4 5, of "Decimal 7 1", unfolded 6 7 8 fst_conv snd_conv]
    by simp
qed

text \<open>
  C3: without a start time (\<open>None\<close>, or the empty string, which \<open>if start_time:\<close> treats
  alike) the duration is never read: the graph, or the exception of the scale stage, is the
  same as with no duration at all.
\<close>

theorem duration_without_start_no_effect:
  "\<not> truthy start_time \<Longrightarrow>
   filter_complex F position scale opacity ox oy start_time (Some d) =
   filter_complex F position scale opacity ox oy start_time None"
  by (simp add: filter_complex_def filter_parts_def overlay_options_no_start)

theorem duration_without_start_no_effect_witness:
  "\<not> truthy None \<and>
   filter_complex decimal_ops ''top-right'' None (Decimal 1 0) 10 10 None (Some ''00:00:30'') =
     Inr ''[0:v][1:v]overlay=main_w-overlay_w-10:10'' \<and>
   filter_complex decimal_ops ''top-right'' None (Decimal 1 0) 10 10 None None =
     Inr ''[0:v][1:v]overlay=main_w-overlay_w-10:10''"
proof -
  have h: "\<not> truthy None" by (simp add: truthy_def)
  have e: "filter_complex decimal_ops ''top-right'' None (Decimal 1 0) 10 10 None None =
      Inr ''[0:v][1:v]overlay=main_w-overlay_w-10:10''"
    by code_simp
  show ?thesis
    using duration_without_start_no_effect
      [OF h, of decimal_ops "''top-right''" None "Decimal 1 0" 10 10 "''00:00:30''"] h
    unfolding e by simp
qed

text \<open>
  C4: when the opacity is below 1.0 (and the other stages succeed) the segment after the scale
  stage reads from the tag that stage left, \<open>[scaled]\<close> when a scale expression is given and
  not empty, \<open>[1:v]\<close> otherwise; it sets the pixel format \<open>rgba\<close>, multiplies the alpha
  channel by the opacity and writes \<open>[transparent]\<close>, from which the final segment reads.
\<close>

theorem opacity_segment_reads_current_tag:
  assumes "flt F opacity (float_of_int F 1)"
    and "scale_stage F scale = Inr (ps, inp)"
    and "get_position_filter position ox oy = Inr pos"
    and "overlay_options F start_time duration = Inr opts"
  shows "inp = (if truthy scale then ''[scaled]'' else ''[1:v]'') \<and>
     filter_parts F position scale opacity ox oy start_time duration =
       Inr (ps @
            [inp @ ''format=rgba,colorchannelmixer=aa='' @ float_str F opacity @ ''[transparent]'',
             ''[0:v][transparent]overlay='' @ pos
               @ (if opts \<noteq> [] then '':'' @ str_join '':'' opts else [])])"
proof -
  have tag: "inp = (if truthy scale then ''[scaled]'' else ''[1:v]'')"
    using assms(2) by (rule scale_stage_tag)
  have "opacity_stage F scale opacity (ps, inp) =
      (ps @ [inp @ ''format=rgba,colorchannelmixer=aa='' @ float_str F opacity @ ''[transparent]''],
       ''[transparent]'')"
    using assms(1) tag by (simp add: opacity_stage_def)
  then show ?thesis
    using tag by (simp add: filter_parts_eq [OF assms(2) assms(3) assms(4)] overlay_filter_def)
qed

theorem opacity_segment_reads_current_tag_witness:
  "flt decimal_ops (Decimal 7 1) (float_of_int decimal_ops 1) \<and>
   filter_parts decimal_ops ''top-right'' None (Decimal 7 1) 10 10 None None =
     Inr [''[1:v]format=rgba,colorchannelmixer=aa=0.7[transparent]'',
          ''[0:v][transparent]overlay=main_w-overlay_w-10:10'']"
proof -
  have 1: "flt decimal_ops (Decimal 7 1) (float_of_int decimal_ops 1)" by code_simp
  have 2: "scale_stage decimal_ops None = Inr ([], ''[1:v]'')" by code_simp
  have 3: "get_position_filter ''top-right'' 10 10 = Inr ''main_w-overlay_w-10:10''" by code_simp
  have 4: "overlay_options decimal_ops None None = Inr []" by code_simp
  have 5: "float_str decimal_ops (Decimal 7 1) = ''0.7''" by code_simp
  show ?thesis
    using opacity_segment_reads_current_tag [OF 1 2 3 4, unfolded 5] 1 by simp
qed

lemma endswith_percent: "endswith (n @ ''%'') ''%''"
  by (simp add: endswith_def)

text \<open>
  C6: with a scale expression that is not empty (and the later stages succeeding) the first
  segment reads \<open>[1:v]\<close> and writes \<open>[scaled]\<close>, and other segments follow it. A string
  that does not end in a percent sign is passed on as written; \<open>n%\<close>, where \<open>float\<close> reads
  \<open>n\<close> as \<open>v\<close>, gives the factor \<open>v / 100\<close> on both dimensions.
\<close>

theorem scale_segment_first:
  assumes "get_position_filter position ox oy = Inr pos"
    and "overlay_options F start_time duration = Inr opts"
  shows "(s \<noteq> [] \<and> \<not> endswith s ''%'' \<longrightarrow>
            (\<exists>rest. rest \<noteq> [] \<and>
               filter_parts F position (Some s) opacity ox oy start_time duration =
                 Inr ((''[1:v]scale='' @ s @ ''[scaled]'') # rest))) \<and>
         (float_of_str F n = Some v \<longrightarrow>
            (\<exists>rest. rest \<noteq> [] \<and>
               filter_parts F position (Some (n @ ''%'')) opacity ox oy start_time duration =
                 Inr ((''[1:v]scale=iw*'' @ float_str F (fdiv F v (float_of_int F 100))
                         @ '':ih*'' @ float_str F (fdiv F v (float_of_int F 100)) @ ''[scaled]'') # rest)))"
proof (intro conjI impI)
  assume a: "s \<noteq> [] \<and> \<not> endswith s ''%''"
  then have sc: "scale_stage F (Some s) = Inr ([''[1:v]scale='' @ s @ ''[scaled]''], ''[scaled]'')"
    by (simp add: scale_stage_def scale_filter_def)
  show "\<exists>rest. rest \<noteq> [] \<and>
          filter_parts F position (Some s) opacity ox oy start_time duration =
            Inr ((''[1:v]scale='' @ s @ ''[scaled]'') # rest)"
    by (simp add: filter_parts_eq [OF sc assms(1) assms(2)] opacity_stage_def)
next
  assume f: "float_of_str F n = Some v"
  let ?seg = "''[1:v]scale=iw*'' @ float_str F (fdiv F v (float_of_int F 100))
                @ '':ih*'' @ float_str F (fdiv F v (float_of_int F 100)) @ ''[scaled]''"
  have sc: "scale_stage F (Some (n @ ''%'')) = Inr ([?seg], ''[scaled]'')"
    using f by (simp add: scale_stage_def scale_filter_def endswith_percent py_float_def Let_def)
  show "\<exists>rest. rest \<noteq> [] \<and>
          filter_parts F position (Some (n @ ''%'')) opacity ox oy start_time duration = Inr (?seg # rest)"
    by (simp add: filter_parts_eq [OF sc assms(1) assms(2)] opacity_stage_def)
qed

theorem scale_segment_first_witness:
  "(\<exists>rest. rest \<noteq> [] \<and>
      filter_parts decimal_ops ''top-right'' (Some ''100:100'') (Decimal 1 0) 10 10 None None =
        Inr (''[1:v]scale=100:100[scaled]'' # rest)) \<and>
   (\<exists>rest. rest \<noteq> [] \<and>
      filter_parts decimal_ops ''top-right'' (Some ''50%'') (Decimal 1 0) 10 10 None None =
        Inr (''[1:v]scale=iw*0.5:ih*0.5[scaled]'' # rest))"
proof -
  have 1: "get_position_filter ''top-right'' 10 10 = Inr ''main_w-overlay_w-10:10''" by code_simp
  have 2: "overlay_options decimal_ops None None = Inr []" by code_simp
  have 3: "''100:100'' \<noteq> [] \<and> \<not> endswith ''100:100'' ''%''" by code_simp
  have 4: "float_of_str decimal_ops ''50'' = Some (Decimal 50 0)" by code_simp
  have 5: "float_str decimal_ops (fdiv decimal_ops (Decimal 50 0) (float_of_int decimal_ops 100)) = ''0.5''"
    by code_simp
  note t = scale_segment_first
    [OF 1 2, where s = "''100:100''" and n = "''50''" and v = "Decimal 50 0" and opacity = "Decimal 1 0"]
  from t 3 have a: "\<exists>rest. rest \<noteq> [] \<and>
      filter_parts decimal_ops ''top-right'' (Some ''100:100'') (Decimal 1 0) 10 10 None None =
        Inr ((''[1:v]scale='' @ ''100:100'' @ ''[scaled]'') # rest)"
    by blast
  from t 4 have b: "\<exists>rest. rest \<noteq> [] \<and>
      filter_parts decimal_ops ''top-right'' (Some (''50'' @ ''%'')) (Decimal 1 0) 10 10 None None =
        Inr ((''[1:v]scale=iw*''
                @ float_str decimal_ops (fdiv decimal_ops (Decimal 50 0) (float_of_int decimal_ops 100))
                @ '':ih*''
                @ float_str decimal_ops (fdiv decimal_ops (Decimal 50 0) (float_of_int decimal_ops 100))
                @ ''[scaled]'') # rest)"
    by blast
  from a b [unfolded 5] show ?thesis by simp
qed

section \<open>File discovery\<close>

lemma collect_mp4_filter: "collect_mp4 E acc entries = acc @ filter (is_mp4 E) entries"
  by (induction entries arbitrary: acc) simp_all

lemma collect_mp4_empty:
  "(collect_mp4 E [] entries = []) = (\<forall>f \<in> set entries. \<not> is_mp4 E f)"
  by (simp add: collect_mp4_filter filter_empty_conv)

text \<open>
  C7: discovery raises \<open>FileNotFoundError\<close> when the folder does not exist,
  \<open>NotADirectoryError\<close> when it exists and is no directory, and the \<open>ValueError\<close> with the
  message \<open>No MP4 files found\<close> when no entry of the directory is a regular file whose suffix
  is \<open>.mp4\<close> in any mix of cases. The sort method plays no part in any of the three.
\<close>

theorem find_mp4_files_errors:
  "(\<not> path_exists E (path_of E folder_path) \<longrightarrow>
      find_mp4_files E folder_path sort_method =
        Inl (FileNotFoundError (''Folder does not exist: '' @ folder_path))) \<and>
   (path_exists E (path_of E folder_path) \<and> \<not> is_dir E (path_of E folder_path) \<longrightarrow>
      find_mp4_files E folder_path sort_method =
        Inl (NotADirectoryError (''Path is not a directory: '' @ folder_path))) \<and>
   (path_exists E (path_of E folder_path) \<and> is_dir E (path_of E folder_path) \<and>
    (\<forall>f \<in> set (iterdir E (path_of E folder_path)).
        \<not> (is_file E f \<and> str_lower (suffix_of_name (path_name E f)) = ''.mp4'')) \<longrightarrow>
      find_mp4_files E folder_path sort_method =
        Inl (ValueError (''No MP4 files found in folder: '' @ folder_path)))"
  by (simp add: find_mp4_files_def collect_mp4_filter filter_empty_conv is_mp4_def)

theorem find_mp4_files_errors_witness:
  "find_mp4_files demo_env ''nope'' ''alphabetical'' =
     Inl (FileNotFoundError ''Folder does not exist: nope'') \<and>
   find_mp4_files demo_env ''clip.mp4'' ''alphabetical'' =
     Inl (NotADirectoryError ''Path is not a directory: clip.mp4'') \<and>
   find_mp4_files demo_env ''docs'' ''alphabetical'' =
     Inl (ValueError ''No MP4 files found in folder: docs'')"
proof -
  have 1: "\<not> path_exists demo_env (path_of demo_env ''nope'')" by code_simp
  have 2: "path_exists demo_env (path_of demo_env ''clip.mp4'') \<and>
           \<not> is_dir demo_env (path_of demo_env ''clip.mp4'')"
    by code_simp
  have 3: "path_exists demo_env (path_of demo_env ''docs'') \<and> is_dir demo_env (path_of demo_env ''docs'') \<and>
           (\<forall>f \<in> set (iterdir demo_env (path_of demo_env ''docs'')).
              \<not> (is_file demo_env f \<and> str_lower (suffix_of_name (path_name demo_env f)) = ''.mp4''))"
    by code_simp
  from find_mp4_files_errors [of demo_env "''nope''" "''alphabetical''"] 1
  have a: "find_mp4_files demo_env ''nope'' ''alphabetical'' =
      Inl (FileNotFoundError (''Folder does not exist: '' @ ''nope''))"
    by blast
  from find_mp4_files_errors [of demo_env "''clip.mp4''" "''alphabetical''"] 2
  have b: "find_mp4_files demo_env ''clip.mp4'' ''alphabetical'' =
      Inl (NotADirectoryError (''Path is not a directory: '' @ ''clip.mp4''))"
    by blast
  from find_mp4_files_errors [of demo_env "''docs''" "''alphabetical''"] 3
  have c: "find_mp4_files demo_env ''docs'' ''alphabetical'' =
      Inl (ValueError (''No MP4 files found in folder: '' @ ''docs''))"
    by blast
  from a b c show ?thesis by simp
qed

text \<open>
  C10: a sort method other than the three known ones raises the \<open>ValueError\<close> with the message
  \<open>Invalid sort method\<close>, and it is the last check: a missing folder, a path that is no
  directory and a directory without a matching file are reported first.
\<close>

theorem find_mp4_files_invalid_sort:
  "sort_method \<notin> set [''alphabetical'', ''date_created'', ''date_modified''] \<Longrightarrow>
   find_mp4_files E folder_path sort_method =
     (if \<not> path_exists E (path_of E folder_path) then
        Inl (FileNotFoundError (''Folder does not exist: '' @ folder_path))
      else if \<not> is_dir E (path_of E folder_path) then
        Inl (NotADirectoryError (''Path is not a directory: '' @ folder_path))
      else if \<forall>f \<in> set (iterdir E (path_of E folder_path)). \<not> is_mp4 E f then
        Inl (ValueError (''No MP4 files found in folder: '' @ folder_path))
      else Inl (ValueError (''Invalid sort method: '' @ sort_method)))"
  by (auto simp: find_mp4_files_def collect_mp4_empty Let_def)

theorem find_mp4_files_invalid_sort_witness:
  "''newest'' \<notin> set [''alphabetical'', ''date_created'', ''date_modified''] \<and>
   find_mp4_files demo_env ''videos'' ''newest'' = Inl (ValueError ''Invalid sort method: newest'') \<and>
   find_mp4_files demo_env ''docs'' ''newest'' = Inl (ValueError ''No MP4 files found in folder: docs'') \<and>
   find_mp4_files demo_env ''videos'' ''alphabetical'' = Inr [''videos/A.MP4'', ''videos/b.mp4'']"
proof -
  have 1: "''newest'' \<notin> set [''alphabetical'', ''date_created'', ''date_modified'']" by simp
  have 2: "(if \<not> path_exists demo_env (path_of demo_env ''videos'') then
              Inl (FileNotFoundError (''Folder does not exist: '' @ ''videos''))
            else if \<not> is_dir demo_env (path_of demo_env ''videos'') then
              Inl (NotADirectoryError (''Path is not a directory: '' @ ''videos''))
            else if \<forall>f \<in> set (iterdir demo_env (path_of demo_env ''videos'')). \<not> is_mp4 demo_env f then
              Inl (ValueError (''No MP4 files found in folder: '' @ ''videos''))
            else Inl (ValueError (''Invalid sort method: '' @ ''newest''))) =
           (Inl (ValueError ''Invalid sort method: newest'') :: py_error + string list)"
    by code_simp
  have 3: "(if \<not> path_exists demo_env (path_of demo_env ''docs'') then
              Inl (FileNotFoundError (''Folder does not exist: '' @ ''docs''))
            else if \<not> is_dir demo_env (path_of demo_env ''docs'') then
              Inl (NotADirectoryError (''Path is not a directory: '' @ ''docs''))
            else if \<forall>f \<in> set (iterdir demo_env (path_of demo_env ''docs'')). \<not> is_mp4 demo_env f then
              Inl (ValueError (''No MP4 files found in folder: '' @ ''docs''))
            else Inl (ValueError (''Invalid sort method: '' @ ''newest''))) =
           (Inl (ValueError ''No MP4 files found in folder: docs'') :: py_error + string list)"
    by code_simp
  have 4: "find_mp4_files demo_env ''videos'' ''alphabetical'' = Inr [''videos/A.MP4'', ''videos/b.mp4'']"
    by code_simp
  show ?thesis
    using find_mp4_files_invalid_sort [OF 1, of demo_env "''videos''", unfolded 2]
      find_mp4_files_invalid_sort [OF 1, of demo_env "''docs''", unfolded 3] 1 4
    by blast
qed

section \<open>The concat list\<close>

lemma str_replace_char:
  "str_replace [a] new s = concat (map (\<lambda>c. if c = a then new else [c]) s)"
  by (induction s) simp_all

lemma escape_path:
  "str_replace [CHR 0x27] [CHR 0x5C, CHR 0x27] (str_replace [CHR 0x5C] ''/'' s) =
     concat (map (\<lambda>c. if c = CHR 0x5C then ''/''
                        else if c = CHR 0x27 then [CHR 0x5C, CHR 0x27] else [c]) s)"
  by (induction s) (simp_all add: str_replace_char)

lemma written_lines:
  "foldl (\<lambda>written f. written @ line f) acc files = acc @ concat (map line files)"
  by (induction files arbitrary: acc) simp_all

text \<open>
  C9: the text written is, for each file in the order given, the line
  \<open>file '<path>'\<close> with its newline, where the path is the resolved absolute path with each
  backslash turned into a slash and each single quote preceded by a backslash; nothing else is
  written.
\<close>

theorem create_concat_file_lines:
  "snd (create_concat_file E mp4_files temp_dir) =
     concat (map (\<lambda>f. ''file '' @ [CHR 0x27]
                       @ concat (map (\<lambda>c. if c = CHR 0x5C then ''/''
                                           else if c = CHR 0x27 then [CHR 0x5C, CHR 0x27] else [c])
                                   (path_str E (resolve E f)))
                       @ [CHR 0x27, CHR 0x0A])
                 mp4_files)"
  by (simp add: create_concat_file_def written_lines concat_line_def escape_path)

theorem create_concat_file_lines_witness:
  "create_concat_file demo_env [''videos/b.mp4'', ''x'' @ [CHR 0x5C] @ ''it'' @ [CHR 0x27] @ ''s.mp4''] ''/tmp/t'' =
     (''/tmp/t/concat_list.txt'',
      ''file '' @ [CHR 0x27] @ ''/home/user/videos/b.mp4'' @ [CHR 0x27, CHR 0x0A]
        @ ''file '' @ [CHR 0x27] @ ''/home/user/x/it'' @ [CHR 0x5C, CHR 0x27] @ ''s.mp4'' @ [CHR 0x27, CHR 0x0A])"
proof -
  let ?files = "[''videos/b.mp4'', ''x'' @ [CHR 0x5C] @ ''it'' @ [CHR 0x27] @ ''s.mp4'']"
  have 1: "fst (create_concat_file demo_env ?files ''/tmp/t'') = ''/tmp/t/concat_list.txt''"
    by code_simp
  have 2: "concat (map (\<lambda>f. ''file '' @ [CHR 0x27]
                       @ concat (map (\<lambda>c. if c = CHR 0x5C then ''/''
                                           else if c = CHR 0x27 then [CHR 0x5C, CHR 0x27] else [c])
                                   (path_str demo_env (resolve demo_env f)))
                       @ [CHR 0x27, CHR 0x0A]) ?files) =
      ''file '' @ [CHR 0x27] @ ''/home/user/videos/b.mp4'' @ [CHR 0x27, CHR 0x0A]
        @ ''file '' @ [CHR 0x27] @ ''/home/user/x/it'' @ [CHR 0x5C, CHR 0x27] @ ''s.mp4'' @ [CHR 0x27, CHR 0x0A]"
    by code_simp
  show ?thesis
    using create_concat_file_lines [of demo_env ?files "''/tmp/t''", unfolded 2] 1
    by (simp add: prod_eq_iff)
qed

section \<open>The run of the overlay tool\<close>

lemma main_in_range_probes_first:
  "fle F (float_of_int F 0) (arg_opacity args) \<Longrightarrow> fle F (arg_opacity args) (float_of_int F 1) \<Longrightarrow>
   \<exists>rest. spawns (fst (main F E args)) = [''ffmpeg'', ''-version''] # rest"
  by (auto simp: main_def check_ffmpeg_def spawns_def split: run_result.splits prod.splits sum.splits)

text \<open>
  C8: when the opacity is not within 0.0 and 1.0, the run prints the validation message and
  ends with status 1; no call of \<open>subprocess.run\<close> is among its events, the probe for the
  external tool included.
\<close>

theorem main_opacity_out_of_range:
  "\<not> (fle F (float_of_int F 0) (arg_opacity args) \<and> fle F (arg_opacity args) (float_of_int F 1)) \<Longrightarrow>
   snd (main F E args) = 1 \<and>
   spawns (fst (main F E args)) = [] \<and>
   fst (main F E args) = [Print (cross_mark @ '' Error: Opacity must be between 0.0 and 1.0'')]"
  by (simp add: main_def spawns_def)

theorem main_opacity_out_of_range_witness:
  "\<not> (fle decimal_ops (float_of_int decimal_ops 0) (arg_opacity demo_args) \<and>
       fle decimal_ops (arg_opacity demo_args) (float_of_int decimal_ops 1)) \<and>
   snd (main decimal_ops demo_env demo_args) = 1 \<and>
   spawns (fst (main decimal_ops demo_env demo_args)) = [] \<and>
   spawns (fst (main decimal_ops demo_env (demo_args\<lparr>arg_opacity := Decimal 7 1\<rparr>))) =
     [[''ffmpeg'', ''-version''],
      [''ffmpeg'', ''-i'', ''clip.mp4'', ''-i'', ''logo.png'', ''-filter_complex'',
       ''[1:v]format=rgba,colorchannelmixer=aa=0.7[transparent];[0:v][transparent]overlay=main_w-overlay_w-10:10'',
       ''-c:a'', ''copy'', ''-y'', ''/home/user/output/clip_overlay.mp4'']]"
proof -
  have 1: "\<not> (fle decimal_ops (float_of_int decimal_ops 0) (arg_opacity demo_args) \<and>
       fle decimal_ops (arg_opacity demo_args) (float_of_int decimal_ops 1))"
    by code_simp
  have 2: "spawns (fst (main decimal_ops demo_env (demo_args\<lparr>arg_opacity := Decimal 7 1\<rparr>))) =
     [[''ffmpeg'', ''-version''],
      [''ffmpeg'', ''-i'', ''clip.mp4'', ''-i'', ''logo.png'', ''-filter_complex'',
       ''[1:v]format=rgba,colorchannelmixer=aa=0.7[transparent];[0:v][transparent]overlay=main_w-overlay_w-10:10'',
       ''-c:a'', ''copy'', ''-y'', ''/home/user/output/clip_overlay.mp4'']]"
    by code_simp
  show ?thesis
    using main_opacity_out_of_range [OF 1, of demo_env] 1 2 by blast
qed

end
